theory Spec2Isabelle
  imports Main "HOL-Library.AList"
begin

section \<open>Data model of \<^verbatim>\<open>message_server.py\<close>\<close>

text \<open>
  The inputs are taken at their declared types. \<^verbatim>\<open>save_message(self, room: str,
  message: Dict)\<close> takes a room name that is a string; the dictionaries that reach the
  server are the ones the client builds, \<^verbatim>\<open>{"room": self.room, "name": self.name,
  "message": message}\<close> with \<^verbatim>\<open>Optional[str]\<close> values, so a dictionary is an
  association list from string keys to optional strings (\<open>None\<close> is Python's
  \<^verbatim>\<open>None\<close>). Floating point values do not occur.
\<close>

type_synonym pydict = "(string \<times> string option) list"

text \<open>
  The dictionary \<^verbatim>\<open>message_data\<close> built by \<^verbatim>\<open>save_message\<close>, with its four keys
  \<^verbatim>\<open>"name"\<close>, \<^verbatim>\<open>"message"\<close>, \<^verbatim>\<open>"timestamp"\<close>, \<^verbatim>\<open>"id"\<close>. The last field is
  \<^verbatim>\<open>len(...)\<close>, a natural number.
\<close>

record message_data =
  name :: "string option"
  message :: "string option"
  timestamp :: string
  id_field :: nat

text \<open>
  \<^verbatim>\<open>self.messages\<close>: a dictionary from room to the list of its messages. Python
  dictionaries keep insertion order and \<^verbatim>\<open>json.dump\<close> writes them in that order, so
  the store is an association list; a new key goes to the end.
\<close>

type_synonym store = "(string \<times> message_data list) list"

text \<open>
  The file \<^verbatim>\<open>self.message_file\<close> as \<^verbatim>\<open>_load_all_messages\<close> can find it: not there,
  there but failing in \<^verbatim>\<open>open\<close> or \<^verbatim>\<open>read\<close>, there but not JSON, or a JSON document.
  A JSON document is represented by the dictionary it denotes: \<^verbatim>\<open>json.dump\<close> of a
  dictionary with string keys followed by \<^verbatim>\<open>json.load\<close> gives the dictionary back,
  which is the contract of the \<^verbatim>\<open>json\<close> library and is not re-proved here.
\<close>

datatype disk_file = Absent | Unreadable | Garbage | Doc store

text \<open>The exceptions the two \<^verbatim>\<open>except\<close> clauses of \<^verbatim>\<open>_load_all_messages\<close> tell apart.\<close>

datatype exn = JSONDecodeError | OtherException

text \<open>The calls of \<^verbatim>\<open>logger.error\<close> in \<^verbatim>\<open>message_server.py\<close>.\<close>

datatype log_entry = InvalidJSONFormat | ErrorLoadingMessages | ErrorSavingMessage

text \<open>
  What the durable write of \<^verbatim>\<open>save_message\<close> meets: it goes through, \<^verbatim>\<open>open(..., "w")\<close>
  raises (permission denied: the file is left as it was), or \<^verbatim>\<open>json.dump\<close> raises after
  \<^verbatim>\<open>open\<close> has truncated the file (disk full: a prefix of the document is left, which
  lacks its closing brace and is not JSON).
\<close>

datatype write_outcome = WriteOk | OpenFails | DumpFails

text \<open>
  A \<^verbatim>\<open>MessageServer\<close> object together with the two pieces of the world it acts on: the
  contents of its file and what the module's logger has received at level error.
\<close>

record MessageServer =
  messages :: store
  message_file :: disk_file
  logged :: "log_entry list"

section \<open>Operations of \<^verbatim>\<open>MessageServer\<close>\<close>

text \<open>\<^verbatim>\<open>os.path.exists(self.message_file)\<close>.\<close>

fun path_exists :: "disk_file \<Rightarrow> bool" where
  "path_exists Absent = False"
| "path_exists Unreadable = True"
| "path_exists Garbage = True"
| "path_exists (Doc d) = True"

text \<open>The body of the \<^verbatim>\<open>try\<close>: \<^verbatim>\<open>with open(...) as f: return json.load(f)\<close>.\<close>

fun open_and_json_load :: "disk_file \<Rightarrow> exn + store" where
  "open_and_json_load Absent = Inl OtherException"
| "open_and_json_load Unreadable = Inl OtherException"
| "open_and_json_load Garbage = Inl JSONDecodeError"
| "open_and_json_load (Doc d) = Inr d"

text \<open>\<^verbatim>\<open>_load_all_messages\<close>: the dictionary returned and what was logged.\<close>

definition load_all_messages :: "disk_file \<Rightarrow> store \<times> log_entry list" where
  "load_all_messages f =
     (if path_exists f then
        (case open_and_json_load f of
           Inr d \<Rightarrow> (d, [])
         | Inl JSONDecodeError \<Rightarrow> ([], [InvalidJSONFormat])
         | Inl OtherException \<Rightarrow> ([], [ErrorLoadingMessages]))
      else ([], []))"

text \<open>\<^verbatim>\<open>__init__\<close>.\<close>

definition MessageServer_init :: "disk_file \<Rightarrow> MessageServer" where
  "MessageServer_init f =
     \<lparr>messages = fst (load_all_messages f), message_file = f,
      logged = snd (load_all_messages f)\<rparr>"

text \<open>
  \<^verbatim>\<open>save_message\<close>. The arguments \<open>now\<close> and \<open>io\<close> are what the call reads from its
  environment: the value of \<^verbatim>\<open>datetime.now().isoformat()\<close> and the fate of the write.
  Every exception is caught by the one \<^verbatim>\<open>except Exception\<close>, which logs and returns
  \<^verbatim>\<open>False\<close>; the mutations done before the exception stay.
\<close>

definition save_message ::
  "string \<Rightarrow> pydict \<Rightarrow> string \<Rightarrow> write_outcome \<Rightarrow> MessageServer \<Rightarrow> bool \<times> MessageServer" where
  "save_message room msg now io self =
     (let self1 = (if room \<in> fst ` set (messages self) then self
                   else self\<lparr>messages := messages self @ [(room, [])]\<rparr>);
          failed = (\<lambda>s. (False, s\<lparr>logged := logged s @ [ErrorSavingMessage]\<rparr>))
      in case map_of msg ''name'' of
           None \<Rightarrow> failed self1
         | Some n \<Rightarrow>
             (case map_of msg ''message'' of
                None \<Rightarrow> failed self1
              | Some t \<Rightarrow>
                  (case map_of (messages self1) room of
                     None \<Rightarrow> failed self1
                   | Some room_log \<Rightarrow>
                       (let message_data = \<lparr>name = n, message = t, timestamp = now,
                                             id_field = length room_log\<rparr>;
                            self2 = self1\<lparr>messages :=
                                      AList.update room (room_log @ [message_data]) (messages self1)\<rparr>
                        in case io of
                             WriteOk \<Rightarrow> (True, self2\<lparr>message_file := Doc (messages self2)\<rparr>)
                           | OpenFails \<Rightarrow> failed self2
                           | DumpFails \<Rightarrow> failed (self2\<lparr>message_file := Garbage\<rparr>)))))"

text \<open>\<^verbatim>\<open>load_room_messages\<close>: \<^verbatim>\<open>self.messages.get(room, [])\<close>.\<close>

definition load_room_messages :: "string \<Rightarrow> MessageServer \<Rightarrow> message_data list" where
  "load_room_messages room self =
     (case map_of (messages self) room of None \<Rightarrow> [] | Some room_log \<Rightarrow> room_log)"

text \<open>
  A sequence of calls of \<^verbatim>\<open>save_message\<close> on one object, each with its room, its
  dictionary, its clock reading and the fate of its write: the return values in call
  order and the object after the last call.
\<close>

type_synonym call = "string \<times> pydict \<times> string \<times> write_outcome"

fun save_messages :: "call list \<Rightarrow> MessageServer \<Rightarrow> bool list \<times> MessageServer" where
  "save_messages [] self = ([], self)"
| "save_messages ((room, msg, now, io) # calls) self =
     (case save_message room msg now io self of
        (ok, self') \<Rightarrow>
          (case save_messages calls self' of (oks, self'') \<Rightarrow> (ok # oks, self'')))"

section \<open>Data model of \<^verbatim>\<open>socketio_server.py\<close>\<close>

text \<open>\<^verbatim>\<open>data.get(key)\<close>: \<^verbatim>\<open>None\<close> for a missing key, the value otherwise.\<close>

definition dict_get :: "pydict \<Rightarrow> string \<Rightarrow> string option" where
  "dict_get d k = (case map_of d k of None \<Rightarrow> None | Some v \<Rightarrow> v)"

text \<open>Python's \<^verbatim>\<open>not v\<close> on an optional string: true of \<^verbatim>\<open>None\<close> and of \<^verbatim>\<open>""\<close>.\<close>

definition py_not :: "string option \<Rightarrow> bool" where
  "py_not v = (case v of None \<Rightarrow> True | Some s \<Rightarrow> s = [])"

text \<open>
  The session id of a connection (\<^verbatim>\<open>request.sid\<close>), what an outbound event carries, and
  an outbound event with the connections it is delivered to.
\<close>

type_synonym sid = string

datatype payload = ErrorPayload string | ChatHistory "message_data list" | MessageDict pydict

datatype emitted = Emitted (event: string) (payload: payload) (recipients: "sid set")

text \<open>
  What \<^verbatim>\<open>create_socketio_app\<close> closes over: the \<^verbatim>\<open>MessageServer\<close> and Flask-SocketIO's
  table of rooms, each room with the connections in it.
\<close>

record server =
  message_server :: MessageServer
  rooms :: "string \<Rightarrow> sid set"

text \<open>
  The four Flask-SocketIO calls the handlers make, by the library's documentation:
  \<^verbatim>\<open>emit(event, data)\<close> with no \<^verbatim>\<open>to\<close> goes back to the originating connection;
  \<^verbatim>\<open>send(data, to=room)\<close> is a \<^verbatim>\<open>"message"\<close> event to every connection in the room
  (\<^verbatim>\<open>include_self\<close> defaults to true and no handler passes it); \<^verbatim>\<open>join_room\<close> and
  \<^verbatim>\<open>leave_room\<close> put the current connection in a room and take it out.
\<close>

definition emit :: "sid \<Rightarrow> string \<Rightarrow> payload \<Rightarrow> emitted" where
  "emit request_sid ev p = Emitted ev p {request_sid}"

definition send :: "(string \<Rightarrow> sid set) \<Rightarrow> payload \<Rightarrow> string \<Rightarrow> emitted" where
  "send table p room = Emitted ''message'' p (table room)"

definition join_room :: "sid \<Rightarrow> string \<Rightarrow> (string \<Rightarrow> sid set) \<Rightarrow> (string \<Rightarrow> sid set)" where
  "join_room request_sid room table = table(room := insert request_sid (table room))"

definition leave_room :: "sid \<Rightarrow> string \<Rightarrow> (string \<Rightarrow> sid set) \<Rightarrow> (string \<Rightarrow> sid set)" where
  "leave_room request_sid room table = table(room := table room - {request_sid})"

section \<open>Handlers of \<^verbatim>\<open>socketio_server.py\<close>\<close>

text \<open>\<^verbatim>\<open>create_socketio_app\<close>: a new \<^verbatim>\<open>MessageServer()\<close> on the file, no one in any room.\<close>

definition create_socketio_app :: "disk_file \<Rightarrow> server" where
  "create_socketio_app f = \<lparr>message_server = MessageServer_init f, rooms = (\<lambda>room. {})\<rparr>"

text \<open>
  \<^verbatim>\<open>handle_message\<close>: the events emitted, in order, and the server afterwards. The test
  \<^verbatim>\<open>if not room\<close> is a case distinction on the optional string, so that the branch that
  goes on has the room as a string. At these types nothing in the \<^verbatim>\<open>try\<close> raises
  (\<^verbatim>\<open>save_message\<close> catches its own exceptions), so the handler's \<^verbatim>\<open>except\<close> has no
  branch. The handler's own logging is at no claim's stake and is left out.
\<close>

definition handle_message ::
  "sid \<Rightarrow> pydict \<Rightarrow> string \<Rightarrow> write_outcome \<Rightarrow> server \<Rightarrow> emitted list \<times> server" where
  "handle_message request_sid data now io st =
     (case dict_get data ''room'' of
        None \<Rightarrow> ([emit request_sid ''error'' (ErrorPayload ''Room not specified'')], st)
      | Some room \<Rightarrow>
          if room = [] then
            ([emit request_sid ''error'' (ErrorPayload ''Room not specified'')], st)
          else if py_not (dict_get data ''name'') \<or> py_not (dict_get data ''message'') then
            ([emit request_sid ''error'' (ErrorPayload ''Invalid message format'')], st)
          else
            (case save_message room data now io (message_server st) of
               (ok, ms) \<Rightarrow>
                 if ok then
                   ([send (rooms st) (MessageDict data) room], st\<lparr>message_server := ms\<rparr>)
                 else
                   ([emit request_sid ''error'' (ErrorPayload ''Failed to save message'')],
                    st\<lparr>message_server := ms\<rparr>)))"

text \<open>\<^verbatim>\<open>handle_join\<close>; \<open>now\<close> is the clock reading of the join notice.\<close>

definition handle_join :: "sid \<Rightarrow> pydict \<Rightarrow> string \<Rightarrow> server \<Rightarrow> emitted list \<times> server" where
  "handle_join request_sid data now st =
     (case dict_get data ''room'' of
        None \<Rightarrow> ([emit request_sid ''error'' (ErrorPayload ''Room and name are required'')], st)
      | Some room \<Rightarrow>
          (case dict_get data ''name'' of
             None \<Rightarrow>
               ([emit request_sid ''error'' (ErrorPayload ''Room and name are required'')], st)
           | Some nm \<Rightarrow>
               if room = [] \<or> nm = [] then
                 ([emit request_sid ''error'' (ErrorPayload ''Room and name are required'')], st)
               else
                 (let st1 = st\<lparr>rooms := join_room request_sid room (rooms st)\<rparr>;
                      previous_messages = load_room_messages room (message_server st1);
                      history =
                        (if previous_messages \<noteq> [] then
                           [emit request_sid ''chat_history'' (ChatHistory previous_messages)]
                         else []);
                      join_message =
                        [(''name'', Some ''System''),
                         (''message'', Some (nm @ '' joined the room'')),
                         (''timestamp'', Some now)]
                  in (history @ [send (rooms st1) (MessageDict join_message) room], st1))))"

text \<open>\<^verbatim>\<open>handle_leave\<close>.\<close>

definition handle_leave :: "sid \<Rightarrow> pydict \<Rightarrow> string \<Rightarrow> server \<Rightarrow> emitted list \<times> server" where
  "handle_leave request_sid data now st =
     (case dict_get data ''room'' of
        None \<Rightarrow> ([emit request_sid ''error'' (ErrorPayload ''Room and name are required'')], st)
      | Some room \<Rightarrow>
          (case dict_get data ''name'' of
             None \<Rightarrow>
               ([emit request_sid ''error'' (ErrorPayload ''Room and name are required'')], st)
           | Some nm \<Rightarrow>
               if room = [] \<or> nm = [] then
                 ([emit request_sid ''error'' (ErrorPayload ''Room and name are required'')], st)
               else
                 (let st1 = st\<lparr>rooms := leave_room request_sid room (rooms st)\<rparr>;
                      leave_message =
                        [(''name'', Some ''System''),
                         (''message'', Some (nm @ '' left the room'')),
                         (''timestamp'', Some now)]
                  in ([send (rooms st1) (MessageDict leave_message) room], st1))))"

section \<open>The history a sequence of appends leaves\<close>

text \<open>
  The two keys \<^verbatim>\<open>save_message\<close> reads from its dictionary are there. Without one of them
  the call raises \<^verbatim>\<open>KeyError\<close> before it has built a message.
\<close>

definition has_keys :: "pydict \<Rightarrow> bool" where
  "has_keys msg = (map_of msg ''name'' \<noteq> None \<and> map_of msg ''message'' \<noteq> None)"

text \<open>
  The two kinds of call that build a message: one whose write goes through (a successful
  append) and one whose write raises.
\<close>

fun succeeds :: "call \<Rightarrow> bool" where
  "succeeds (r, msg, now, io) = (has_keys msg \<and> io = WriteOk)"

fun write_failed :: "call \<Rightarrow> bool" where
  "write_failed (r, msg, now, io) = (has_keys msg \<and> io \<noteq> WriteOk)"

text \<open>
  The messages that the calls to a room leave in its log, in call order, numbered from
  \<open>k\<close> upwards: one for every call to that room that has both keys, whatever the fate
  of its write.
\<close>

fun stored_by :: "string \<Rightarrow> nat \<Rightarrow> call list \<Rightarrow> message_data list" where
  "stored_by room k [] = []"
| "stored_by room k ((r, msg, now, io) # calls) =
     (if r = room \<and> has_keys msg then
        \<lparr>name = dict_get msg ''name'', message = dict_get msg ''message'', timestamp = now,
         id_field = k\<rparr> # stored_by room (Suc k) calls
      else stored_by room k calls)"

section \<open>Facts about one call of \<^verbatim>\<open>save_message\<close>\<close>

lemma in_keys_map_of: "k \<in> fst ` set al \<Longrightarrow> \<exists>v. map_of al k = Some v"
  by (cases "map_of al k") (simp_all add: map_of_eq_None_iff)

lemma not_in_keys_map_of: "k \<notin> fst ` set al \<Longrightarrow> map_of al k = None"
  by (simp add: map_of_eq_None_iff)

lemmas save_message_unfold =
  save_message_def Let_def load_room_messages_def map_add_def update_conv'

lemma save_message_cases:
  obtains (present) l where "room \<in> fst ` set ms" "map_of ms room = Some l"
        | (absent) "room \<notin> fst ` set ms" "map_of ms room = None"
  using in_keys_map_of not_in_keys_map_of by metis

lemma save_message_ok_iff:
  "fst (save_message room msg now io self) \<longleftrightarrow>
     io = WriteOk \<and> map_of msg ''name'' \<noteq> None \<and> map_of msg ''message'' \<noteq> None"
  by (rule save_message_cases[of room "messages self"])
     (simp_all add: save_message_unfold split: option.splits write_outcome.splits)

lemma save_message_room_log:
  "map_of msg ''name'' = Some n \<Longrightarrow> map_of msg ''message'' = Some t \<Longrightarrow>
   load_room_messages room (snd (save_message room msg now io self)) =
     load_room_messages room self @
       [\<lparr>name = n, message = t, timestamp = now,
         id_field = length (load_room_messages room self)\<rparr>]"
  by (rule save_message_cases[of room "messages self"])
     (simp_all add: save_message_unfold split: option.splits write_outcome.splits)

lemma save_message_room_log_keyerror:
  "map_of msg ''name'' = None \<or> map_of msg ''message'' = None \<Longrightarrow>
   load_room_messages room (snd (save_message room msg now io self)) =
     load_room_messages room self"
  by (rule save_message_cases[of room "messages self"])
     (auto simp add: save_message_unfold split: option.splits write_outcome.splits)

lemma save_message_other_room:
  "r \<noteq> room \<Longrightarrow>
   load_room_messages r (snd (save_message room msg now io self)) = load_room_messages r self"
  by (rule save_message_cases[of room "messages self"])
     (simp_all add: save_message_unfold split: option.splits write_outcome.splits)

lemma save_message_file_ok:
  "fst (save_message room msg now io self) \<Longrightarrow>
   message_file (snd (save_message room msg now io self)) =
     Doc (messages (snd (save_message room msg now io self)))"
  by (rule save_message_cases[of room "messages self"])
     (simp_all add: save_message_unfold split: option.splits write_outcome.splits)


lemma load_all_messages_Doc: "load_all_messages (Doc d) = (d, [])"
  by (simp add: load_all_messages_def)

lemma load_room_messages_fresh: "load_room_messages room (MessageServer_init Absent) = []"
  by (simp add: load_room_messages_def MessageServer_init_def load_all_messages_def)

section \<open>Facts about sequences of calls\<close>

lemma snd_save_messages_Cons:
  "snd (save_messages ((r, msg, now, io) # calls) self) =
     snd (save_messages calls (snd (save_message r msg now io self)))"
  by (simp split: prod.splits)

lemma fst_save_messages_Cons:
  "fst (save_messages ((r, msg, now, io) # calls) self) =
     fst (save_message r msg now io self) #
     fst (save_messages calls (snd (save_message r msg now io self)))"
  by (simp split: prod.splits)

lemma length_fst_save_messages: "length (fst (save_messages calls self)) = length calls"
proof (induction calls arbitrary: self)
  case Nil
  then show ?case by simp
next
  case (Cons c calls)
  obtain r msg now io where c: "c = (r, msg, now, io)" by (cases c) auto
  show ?case unfolding c fst_save_messages_Cons by (simp add: Cons.IH)
qed

lemma save_message_ids_step:
  assumes "map id_field (load_room_messages room self) = [0..<length (load_room_messages room self)]"
  shows "map id_field (load_room_messages room (snd (save_message r msg now io self))) =
           [0..<length (load_room_messages room (snd (save_message r msg now io self)))]"
proof (cases "r = room")
  case False
  then show ?thesis using assms by (simp add: save_message_other_room)
next
  case True
  show ?thesis
  proof (cases "map_of msg ''name'' = None \<or> map_of msg ''message'' = None")
    case True
    with \<open>r = room\<close> assms show ?thesis by (simp add: save_message_room_log_keyerror)
  next
    case False
    then obtain n t where "map_of msg ''name'' = Some n" "map_of msg ''message'' = Some t"
      by auto
    with \<open>r = room\<close> assms show ?thesis by (simp add: save_message_room_log)
  qed
qed

lemma save_messages_ids:
  "map id_field (load_room_messages room self) = [0..<length (load_room_messages room self)] \<Longrightarrow>
   map id_field (load_room_messages room (snd (save_messages calls self))) =
     [0..<length (load_room_messages room (snd (save_messages calls self)))]"
proof (induction calls arbitrary: self)
  case Nil
  then show ?case by simp
next
  case (Cons c calls)
  obtain r msg now io where c: "c = (r, msg, now, io)" by (cases c) auto
  have "map id_field (load_room_messages room (snd (save_message r msg now io self))) =
           [0..<length (load_room_messages room (snd (save_message r msg now io self)))]"
    using Cons.prems by (rule save_message_ids_step)
  from Cons.IH[OF this] show ?case
    unfolding c snd_save_messages_Cons .
qed

lemma length_stored_by:
  "length (stored_by room k calls) =
     length (filter (\<lambda>c. fst c = room \<and> succeeds c) calls) +
     length (filter (\<lambda>c. fst c = room \<and> write_failed c) calls)"
  by (induction room k calls rule: stored_by.induct) auto

lemma fst_save_messages: "fst (save_messages calls self) = map succeeds calls"
proof (induction calls arbitrary: self)
  case Nil
  then show ?case by simp
next
  case (Cons c calls)
  obtain r msg now io where c: "c = (r, msg, now, io)" by (cases c) auto
  show ?case
    unfolding c fst_save_messages_Cons
    by (auto simp: Cons.IH save_message_ok_iff has_keys_def)
qed

lemma save_messages_log:
  "load_room_messages room (snd (save_messages calls self)) =
     load_room_messages room self @ stored_by room (length (load_room_messages room self)) calls"
proof (induction calls arbitrary: self)
  case Nil
  then show ?case by simp
next
  case (Cons c calls)
  obtain r msg now io where c: "c = (r, msg, now, io)" by (cases c) auto
  let ?s = "snd (save_message r msg now io self)"
  note IH = Cons.IH[of ?s]
  show ?case
  proof (cases "r = room")
    case False
    then show ?thesis
      using IH unfolding c snd_save_messages_Cons
      by (simp add: save_message_other_room)
  next
    case True
    show ?thesis
    proof (cases "has_keys msg")
      case False
      then have "map_of msg ''name'' = None \<or> map_of msg ''message'' = None"
        by (simp add: has_keys_def)
      then have "load_room_messages room ?s = load_room_messages room self"
        using True by (simp add: save_message_room_log_keyerror)
      with False True show ?thesis
        using IH unfolding c snd_save_messages_Cons by simp
    next
      case keys: True
      then obtain n t where nt: "map_of msg ''name'' = Some n" "map_of msg ''message'' = Some t"
        by (auto simp: has_keys_def)
      with keys True show ?thesis
        using IH unfolding c snd_save_messages_Cons
        by (simp add: save_message_room_log dict_get_def)
    qed
  qed
qed

lemma save_messages_last_ok:
  "calls \<noteq> [] \<Longrightarrow> last (fst (save_messages calls self)) \<Longrightarrow>
   message_file (snd (save_messages calls self)) = Doc (messages (snd (save_messages calls self)))"
proof (induction calls arbitrary: self)
  case Nil
  then show ?case by simp
next
  case (Cons c calls)
  obtain r msg now io where c: "c = (r, msg, now, io)" by (cases c) auto
  show ?case
  proof (cases "calls = []")
    case True
    with Cons.prems show ?thesis
      unfolding c snd_save_messages_Cons fst_save_messages_Cons
      by (simp add: save_message_file_ok)
  next
    case False
    then have "fst (save_messages calls (snd (save_message r msg now io self))) \<noteq> []"
      using length_fst_save_messages[of calls "snd (save_message r msg now io self)"] by auto
    with Cons.prems have "last (fst (save_messages calls (snd (save_message r msg now io self))))"
      unfolding c fst_save_messages_Cons by simp
    from Cons.IH[OF False this] show ?thesis
      unfolding c snd_save_messages_Cons .
  qed
qed

lemma save_messages_untouched:
  "room \<notin> fst ` set calls \<Longrightarrow>
   load_room_messages room (snd (save_messages calls self)) = load_room_messages room self"
proof (induction calls arbitrary: self)
  case Nil
  then show ?case by simp
next
  case (Cons c calls)
  obtain r msg now io where c: "c = (r, msg, now, io)" by (cases c) auto
  from Cons.prems have "r \<noteq> room" and "room \<notin> fst ` set calls" by (auto simp: c)
  then show ?case
    unfolding c snd_save_messages_Cons
    by (simp add: Cons.IH save_message_other_room)
qed

section \<open>Evaluating the handlers\<close>

lemmas handler_eval =
  handle_message_def handle_join_def create_socketio_app_def emit_def send_def join_room_def
  dict_get_def py_not_def save_message_def load_room_messages_def MessageServer_init_def
  load_all_messages_def Let_def

section \<open>Startup\<close>

text \<open>
  C5. \<^verbatim>\<open>_load_all_messages\<close> always returns a dictionary, never an exception: on an absent
  file the empty one with nothing logged; on a file that cannot be read or is not JSON
  the empty one with one error logged; and a server started on such a file answers
  \<^verbatim>\<open>load_room_messages\<close> with the empty list for every room.
\<close>

theorem load_all_messages_corrupt_empty:
  "load_all_messages Absent = ([], [])
   \<and> load_all_messages Garbage = ([], [InvalidJSONFormat])
   \<and> load_all_messages Unreadable = ([], [ErrorLoadingMessages])
   \<and> load_room_messages room (MessageServer_init Absent) = []
   \<and> load_room_messages room (MessageServer_init Garbage) = []
   \<and> load_room_messages room (MessageServer_init Unreadable) = []"
  by (simp add: load_all_messages_def MessageServer_init_def load_room_messages_def)

section \<open>Appending\<close>

text \<open>
  C1, as the code has it. When the durable write raises, \<^verbatim>\<open>save_message\<close> returns
  \<^verbatim>\<open>False\<close> and no exception escapes, but the room's log in memory is not rolled back:
  it is the log before the call followed by the new message, one longer than before.
\<close>

theorem save_message_write_failure_keeps_message:
  "io \<noteq> WriteOk \<Longrightarrow> map_of msg ''name'' = Some n \<Longrightarrow> map_of msg ''message'' = Some t \<Longrightarrow>
   \<not> fst (save_message room msg now io self) \<and>
   load_room_messages room (snd (save_message room msg now io self)) =
     load_room_messages room self @
       [\<lparr>name = n, message = t, timestamp = now,
         id_field = length (load_room_messages room self)\<rparr>] \<and>
   length (load_room_messages room (snd (save_message room msg now io self))) =
     Suc (length (load_room_messages room self))"
  by (simp add: save_message_ok_iff save_message_room_log)

text \<open>
  The theorem at a refused \<^verbatim>\<open>open\<close> on a new server.
\<close>

theorem save_message_write_failure_keeps_message_witness:
  "OpenFails \<noteq> WriteOk \<and>
   map_of [(''name'', Some ''alice''), (''message'', Some ''hello'')] ''name'' = Some (Some ''alice'') \<and>
   map_of [(''name'', Some ''alice''), (''message'', Some ''hello'')] ''message'' = Some (Some ''hello'') \<and>
   \<not> fst (save_message ''r1'' [(''name'', Some ''alice''), (''message'', Some ''hello'')] ''t0''
            OpenFails (MessageServer_init Absent)) \<and>
   load_room_messages ''r1''
     (snd (save_message ''r1'' [(''name'', Some ''alice''), (''message'', Some ''hello'')] ''t0''
            OpenFails (MessageServer_init Absent))) =
     [\<lparr>name = Some ''alice'', message = Some ''hello'', timestamp = ''t0'', id_field = 0\<rparr>]"
  using save_message_write_failure_keeps_message
    [of OpenFails "[(''name'', Some ''alice''), (''message'', Some ''hello'')]"
        "Some ''alice''" "Some ''hello''" "''r1''" "''t0''" "MessageServer_init Absent"]
  by (simp add: load_room_messages_def MessageServer_init_def load_all_messages_def)

text \<open>
  C1 as stated fails: the call returns \<^verbatim>\<open>False\<close>, and the log of the room has length 0
  before the call and length 1 after it.
\<close>

theorem save_message_rollback_counterexample:
  "fst (save_message ''r1'' [(''name'', Some ''alice''), (''message'', Some ''hello'')] ''t0''
          OpenFails (MessageServer_init Absent)) = False \<and>
   length (load_room_messages ''r1'' (MessageServer_init Absent)) = 0 \<and>
   length (load_room_messages ''r1''
     (snd (save_message ''r1'' [(''name'', Some ''alice''), (''message'', Some ''hello'')] ''t0''
            OpenFails (MessageServer_init Absent)))) = 1"
  by (simp add: save_message_def load_room_messages_def MessageServer_init_def
        load_all_messages_def)

text \<open>
  C2. In a room whose stored ids count up from 0, they still do after any sequence of
  calls of \<^verbatim>\<open>save_message\<close>, whatever the rooms, the dictionaries and the fates of the
  writes: no gap and no repeat. A call given both keys leaves the log it found with one
  message more, whose id is the length of the log it found: the count of that room, not a
  counter of the whole store.
\<close>

theorem save_message_ids_count_up:
  "map id_field (load_room_messages room self) = [0..<length (load_room_messages room self)] \<Longrightarrow>
   map id_field (load_room_messages room (snd (save_messages calls self))) =
     [0..<length (load_room_messages room (snd (save_messages calls self)))] \<and>
   (map_of msg ''name'' \<noteq> None \<and> map_of msg ''message'' \<noteq> None \<longrightarrow>
      butlast (load_room_messages room (snd (save_message room msg now io self))) =
        load_room_messages room self \<and>
      id_field (last (load_room_messages room (snd (save_message room msg now io self)))) =
        length (load_room_messages room self))"
  by (auto simp: save_messages_ids save_message_room_log)

text \<open>
  The theorem on a new server: three messages to one room, one to another in between,
  one write failing.
\<close>

theorem save_message_ids_count_up_witness:
  "map id_field (load_room_messages ''r1'' (MessageServer_init Absent)) =
     [0..<length (load_room_messages ''r1'' (MessageServer_init Absent))] \<and>
   map id_field (load_room_messages ''r1'' (snd (save_messages
     [(''r1'', [(''name'', Some ''alice''), (''message'', Some ''hello'')], ''t0'', WriteOk),
      (''r2'', [(''name'', Some ''carol''), (''message'', Some ''hey'')], ''t1'', WriteOk),
      (''r1'', [(''name'', Some ''bob''), (''message'', Some ''hi'')], ''t2'', DumpFails),
      (''r1'', [(''name'', Some ''alice''), (''message'', Some ''again'')], ''t3'', WriteOk)]
     (MessageServer_init Absent)))) = [0, 1, 2] \<and>
   id_field (last (load_room_messages ''r1''
     (snd (save_message ''r1'' [(''name'', Some ''alice''), (''message'', Some ''hello'')] ''t0''
            WriteOk (MessageServer_init Absent))))) = 0"
  using save_message_ids_count_up
    [of "''r1''" "MessageServer_init Absent"
        "[(''r1'', [(''name'', Some ''alice''), (''message'', Some ''hello'')], ''t0'', WriteOk),
          (''r2'', [(''name'', Some ''carol''), (''message'', Some ''hey'')], ''t1'', WriteOk),
          (''r1'', [(''name'', Some ''bob''), (''message'', Some ''hi'')], ''t2'', DumpFails),
          (''r1'', [(''name'', Some ''alice''), (''message'', Some ''again'')], ''t3'', WriteOk)]"
        "[(''name'', Some ''alice''), (''message'', Some ''hello'')]" "''t0''" WriteOk]
  by (simp add: save_message_def load_room_messages_def MessageServer_init_def
        load_all_messages_def Let_def)


text \<open>
  C3, as the code has it. After any sequence of calls, \<^verbatim>\<open>load_room_messages\<close> of a room
  is what it was before followed, in call order, by the message of every call to that room
  that had both keys: those of the calls that returned \<^verbatim>\<open>True\<close> and also those of the
  calls whose write raised. The calls that return \<^verbatim>\<open>True\<close> are the ones with both keys
  and a write that goes through, so the log grows by the number of successful appends to
  the room plus the number of appends to it whose write failed. A room with no entry in
  memory that no call names has the empty list; \<^verbatim>\<open>load_room_messages\<close> has no error to
  return.
\<close>

theorem replay_after_appends:
  "load_room_messages room (snd (save_messages calls self)) =
     load_room_messages room self @
       stored_by room (length (load_room_messages room self)) calls \<and>
   fst (save_messages calls self) = map succeeds calls \<and>
   length (load_room_messages room (snd (save_messages calls self))) =
     length (load_room_messages room self) +
     length (filter (\<lambda>c. fst c = room \<and> succeeds c) calls) +
     length (filter (\<lambda>c. fst c = room \<and> write_failed c) calls) \<and>
   (other \<notin> fst ` set (messages self) \<and> other \<notin> fst ` set calls \<longrightarrow>
      load_room_messages other (snd (save_messages calls self)) = [])"
proof -
  have "other \<notin> fst ` set (messages self) \<Longrightarrow> load_room_messages other self = []"
    by (simp add: load_room_messages_def not_in_keys_map_of)
  then show ?thesis
    by (simp add: save_messages_log [of room calls self] length_stored_by fst_save_messages
          save_messages_untouched)
qed

text \<open>
  The theorem on a new server: three appends to one room, the second with a refused
  \<^verbatim>\<open>open\<close>, one append to another room, and a third room that no call names.
\<close>

theorem replay_after_appends_witness:
  "''r3'' \<notin> fst ` set (messages (MessageServer_init Absent)) \<and>
   ''r3'' \<notin> fst ` set
     [(''r1'', [(''name'', Some ''alice''), (''message'', Some ''hello'')], ''t0'', WriteOk),
      (''r1'', [(''name'', Some ''bob''), (''message'', Some ''hi'')], ''t1'', OpenFails),
      (''r2'', [(''name'', Some ''carol''), (''message'', Some ''hey'')], ''t2'', WriteOk),
      (''r1'', [(''name'', Some ''alice''), (''message'', Some ''again'')], ''t3'', WriteOk)] \<and>
   fst (save_messages
     [(''r1'', [(''name'', Some ''alice''), (''message'', Some ''hello'')], ''t0'', WriteOk),
      (''r1'', [(''name'', Some ''bob''), (''message'', Some ''hi'')], ''t1'', OpenFails),
      (''r2'', [(''name'', Some ''carol''), (''message'', Some ''hey'')], ''t2'', WriteOk),
      (''r1'', [(''name'', Some ''alice''), (''message'', Some ''again'')], ''t3'', WriteOk)]
     (MessageServer_init Absent)) = [True, False, True, True] \<and>
   load_room_messages ''r1'' (snd (save_messages
     [(''r1'', [(''name'', Some ''alice''), (''message'', Some ''hello'')], ''t0'', WriteOk),
      (''r1'', [(''name'', Some ''bob''), (''message'', Some ''hi'')], ''t1'', OpenFails),
      (''r2'', [(''name'', Some ''carol''), (''message'', Some ''hey'')], ''t2'', WriteOk),
      (''r1'', [(''name'', Some ''alice''), (''message'', Some ''again'')], ''t3'', WriteOk)]
     (MessageServer_init Absent))) =
     [\<lparr>name = Some ''alice'', message = Some ''hello'', timestamp = ''t0'', id_field = 0\<rparr>,
      \<lparr>name = Some ''bob'', message = Some ''hi'', timestamp = ''t1'', id_field = 1\<rparr>,
      \<lparr>name = Some ''alice'', message = Some ''again'', timestamp = ''t3'', id_field = 2\<rparr>] \<and>
   load_room_messages ''r3'' (snd (save_messages
     [(''r1'', [(''name'', Some ''alice''), (''message'', Some ''hello'')], ''t0'', WriteOk),
      (''r1'', [(''name'', Some ''bob''), (''message'', Some ''hi'')], ''t1'', OpenFails),
      (''r2'', [(''name'', Some ''carol''), (''message'', Some ''hey'')], ''t2'', WriteOk),
      (''r1'', [(''name'', Some ''alice''), (''message'', Some ''again'')], ''t3'', WriteOk)]
     (MessageServer_init Absent))) = []"
  using replay_after_appends
    [of "''r1''"
        "[(''r1'', [(''name'', Some ''alice''), (''message'', Some ''hello'')], ''t0'', WriteOk),
      (''r1'', [(''name'', Some ''bob''), (''message'', Some ''hi'')], ''t1'', OpenFails),
      (''r2'', [(''name'', Some ''carol''), (''message'', Some ''hey'')], ''t2'', WriteOk),
      (''r1'', [(''name'', Some ''alice''), (''message'', Some ''again'')], ''t3'', WriteOk)]"
        "MessageServer_init Absent" "''r3''"]
  by (simp add: save_message_def load_room_messages_def MessageServer_init_def
        load_all_messages_def Let_def dict_get_def has_keys_def)

text \<open>
  C3 as stated fails. On a new server one append whose \<^verbatim>\<open>open\<close> is refused returns
  \<^verbatim>\<open>False\<close>, so the room has had no successful append, and \<^verbatim>\<open>load_room_messages\<close>
  returns one message; with a successful append before and after it, two appends have
  succeeded and three messages are returned.
\<close>

theorem replay_exactly_n_counterexample:
  "fst (save_messages
     [(''r1'', [(''name'', Some ''bob''), (''message'', Some ''hi'')], ''t0'', OpenFails)]
     (MessageServer_init Absent)) = [False] \<and>
   length (load_room_messages ''r1'' (snd (save_messages
     [(''r1'', [(''name'', Some ''bob''), (''message'', Some ''hi'')], ''t0'', OpenFails)]
     (MessageServer_init Absent)))) = 1 \<and>
   fst (save_messages
     [(''r1'', [(''name'', Some ''alice''), (''message'', Some ''hello'')], ''t0'', WriteOk),
      (''r1'', [(''name'', Some ''bob''), (''message'', Some ''hi'')], ''t1'', OpenFails),
      (''r1'', [(''name'', Some ''alice''), (''message'', Some ''again'')], ''t2'', WriteOk)]
     (MessageServer_init Absent)) = [True, False, True] \<and>
   length (load_room_messages ''r1'' (snd (save_messages
     [(''r1'', [(''name'', Some ''alice''), (''message'', Some ''hello'')], ''t0'', WriteOk),
      (''r1'', [(''name'', Some ''bob''), (''message'', Some ''hi'')], ''t1'', OpenFails),
      (''r1'', [(''name'', Some ''alice''), (''message'', Some ''again'')], ''t2'', WriteOk)]
     (MessageServer_init Absent)))) = 3"
  by (simp add: save_message_def load_room_messages_def MessageServer_init_def
        load_all_messages_def Let_def)

text \<open>
  C4. After one or more calls that all return \<^verbatim>\<open>True\<close>, the file holds the whole store:
  \<^verbatim>\<open>_load_all_messages\<close> on it, and so a new \<^verbatim>\<open>MessageServer\<close>, has the same rooms in
  the same order, each with the same messages, order and ids, as the memory of the server
  that wrote it.
\<close>

theorem persist_then_load_all_round_trip:
  "calls \<noteq> [] \<Longrightarrow> set (fst (save_messages calls self)) \<subseteq> {True} \<Longrightarrow>
   fst (load_all_messages (message_file (snd (save_messages calls self)))) =
     messages (snd (save_messages calls self)) \<and>
   messages (MessageServer_init (message_file (snd (save_messages calls self)))) =
     messages (snd (save_messages calls self))"
proof -
  assume ne: "calls \<noteq> []" and ok: "set (fst (save_messages calls self)) \<subseteq> {True}"
  from ne have "fst (save_messages calls self) \<noteq> []"
    using length_fst_save_messages[of calls self] by auto
  then have "last (fst (save_messages calls self)) \<in> set (fst (save_messages calls self))"
    by (rule last_in_set)
  with ok have "last (fst (save_messages calls self))" by auto
  from save_messages_last_ok[OF ne this] show ?thesis
    by (simp add: load_all_messages_Doc MessageServer_init_def)
qed

text \<open>
  The theorem after two appends to two rooms.
\<close>

theorem persist_then_load_all_round_trip_witness:
  "[(''r1'', [(''name'', Some ''alice''), (''message'', Some ''hello'')], ''t0'', WriteOk),
    (''r2'', [(''name'', Some ''carol''), (''message'', Some ''hey'')], ''t1'', WriteOk)] \<noteq> [] \<and>
   set (fst (save_messages
     [(''r1'', [(''name'', Some ''alice''), (''message'', Some ''hello'')], ''t0'', WriteOk),
      (''r2'', [(''name'', Some ''carol''), (''message'', Some ''hey'')], ''t1'', WriteOk)]
     (MessageServer_init Absent))) \<subseteq> {True} \<and>
   fst (load_all_messages (message_file (snd (save_messages
     [(''r1'', [(''name'', Some ''alice''), (''message'', Some ''hello'')], ''t0'', WriteOk),
      (''r2'', [(''name'', Some ''carol''), (''message'', Some ''hey'')], ''t1'', WriteOk)]
     (MessageServer_init Absent))))) =
     [(''r1'', [\<lparr>name = Some ''alice'', message = Some ''hello'', timestamp = ''t0'',
                id_field = 0\<rparr>]),
      (''r2'', [\<lparr>name = Some ''carol'', message = Some ''hey'', timestamp = ''t1'',
                id_field = 0\<rparr>])]"
  using persist_then_load_all_round_trip
    [of "[(''r1'', [(''name'', Some ''alice''), (''message'', Some ''hello'')], ''t0'', WriteOk),
          (''r2'', [(''name'', Some ''carol''), (''message'', Some ''hey'')], ''t1'', WriteOk)]"
        "MessageServer_init Absent"]
  by (simp add: save_message_def load_room_messages_def MessageServer_init_def
        load_all_messages_def Let_def)



section \<open>The message event\<close>

text \<open>
  C6, as the code has it. The check that the name and the text are there and not empty is
  made by \<^verbatim>\<open>handle_message\<close> before it calls \<^verbatim>\<open>save_message\<close>: an event whose name or
  text is missing, \<^verbatim>\<open>None\<close> or empty gets one \<^verbatim>\<open>error\<close> event back to its sender, and
  the server (memory, file, rooms) is as before.
\<close>

theorem handle_message_rejects_empty_fields:
  "py_not (dict_get data ''name'') \<or> py_not (dict_get data ''message'') \<Longrightarrow>
   handle_message request_sid data now io st =
     ([Emitted ''error''
         (ErrorPayload (if py_not (dict_get data ''room'') then ''Room not specified''
                        else ''Invalid message format''))
         {request_sid}], st)"
  by (auto simp: handle_message_def emit_def py_not_def split: option.splits)

text \<open>
  The theorem at an event with an empty name.
\<close>

theorem handle_message_rejects_empty_fields_witness:
  "(py_not (dict_get [(''room'', Some ''r1''), (''name'', Some ''''), (''message'', Some ''hi'')] ''name'') \<or>
    py_not (dict_get [(''room'', Some ''r1''), (''name'', Some ''''), (''message'', Some ''hi'')] ''message'')) \<and>
   handle_message ''sid1'' [(''room'', Some ''r1''), (''name'', Some ''''), (''message'', Some ''hi'')]
     ''t0'' WriteOk (create_socketio_app Absent) =
     ([Emitted ''error'' (ErrorPayload ''Invalid message format'') {''sid1''}],
      create_socketio_app Absent)"
  using handle_message_rejects_empty_fields
    [of "[(''room'', Some ''r1''), (''name'', Some ''''), (''message'', Some ''hi'')]"
        "''sid1''" "''t0''" WriteOk "create_socketio_app Absent"]
  by (simp add: dict_get_def py_not_def)

text \<open>
  C6 as stated fails: \<^verbatim>\<open>save_message\<close> itself checks nothing. Called with an empty name
  and an empty text it returns \<^verbatim>\<open>True\<close> and the message is in memory and in the file.
\<close>

theorem save_message_stores_empty_fields_counterexample:
  "save_message ''r1'' [(''name'', Some ''''), (''message'', Some '''')] ''t0'' WriteOk
     (MessageServer_init Absent) =
   (True,
    \<lparr>messages = [(''r1'', [\<lparr>name = Some '''', message = Some '''', timestamp = ''t0'',
                               id_field = 0\<rparr>])],
     message_file = Doc [(''r1'', [\<lparr>name = Some '''', message = Some '''',
                                      timestamp = ''t0'', id_field = 0\<rparr>])],
     logged = []\<rparr>)"
  by (simp add: handler_eval)

text \<open>
  C8, as the code has it. For an event with a room, a name and a text whose write goes
  through, what is sent to the room is the dictionary that came in, as it came in; the
  stored message with its timestamp and id is not what is sent.
\<close>

theorem handle_message_broadcasts_inbound_data:
  "dict_get data ''room'' = Some room \<Longrightarrow> room \<noteq> [] \<Longrightarrow>
   \<not> py_not (dict_get data ''name'') \<Longrightarrow> \<not> py_not (dict_get data ''message'') \<Longrightarrow>
   fst (handle_message request_sid data now WriteOk st) =
     [Emitted ''message'' (MessageDict data) (rooms st room)]"
proof -
  assume a: "dict_get data ''room'' = Some room" "room \<noteq> []"
    "\<not> py_not (dict_get data ''name'')" "\<not> py_not (dict_get data ''message'')"
  then have "map_of data ''name'' \<noteq> None" "map_of data ''message'' \<noteq> None"
    by (auto simp: dict_get_def py_not_def split: option.splits)
  then have "fst (save_message room data now WriteOk (message_server st))"
    by (simp add: save_message_ok_iff)
  then obtain ms where "save_message room data now WriteOk (message_server st) = (True, ms)"
    by (cases "save_message room data now WriteOk (message_server st)") auto
  with a show ?thesis
    by (simp add: handle_message_def send_def)
qed

text \<open>
  The theorem at a message from a connection that has joined the room.
\<close>

theorem handle_message_broadcasts_inbound_data_witness:
  "dict_get [(''room'', Some ''r1''), (''name'', Some ''alice''), (''message'', Some ''hello'')] ''room'' =
     Some ''r1'' \<and>
   ''r1'' \<noteq> [] \<and>
   \<not> py_not (dict_get [(''room'', Some ''r1''), (''name'', Some ''alice''), (''message'', Some ''hello'')] ''name'') \<and>
   \<not> py_not (dict_get [(''room'', Some ''r1''), (''name'', Some ''alice''), (''message'', Some ''hello'')] ''message'') \<and>
   fst (handle_message ''sid1''
     [(''room'', Some ''r1''), (''name'', Some ''alice''), (''message'', Some ''hello'')] ''t1'' WriteOk
     (snd (handle_join ''sid1'' [(''room'', Some ''r1''), (''name'', Some ''alice'')] ''t0''
        (create_socketio_app Absent)))) =
     [Emitted ''message''
        (MessageDict [(''room'', Some ''r1''), (''name'', Some ''alice''), (''message'', Some ''hello'')])
        {''sid1''}]"
  using handle_message_broadcasts_inbound_data
    [of "[(''room'', Some ''r1''), (''name'', Some ''alice''), (''message'', Some ''hello'')]"
        "''r1''" "''sid1''" "''t1''"
        "snd (handle_join ''sid1'' [(''room'', Some ''r1''), (''name'', Some ''alice'')] ''t0''
           (create_socketio_app Absent))"]
  by (simp add: handler_eval)

text \<open>
  C8 as stated fails: the payload sent is the inbound dictionary, which has no
  \<^verbatim>\<open>"timestamp"\<close> key, while the message stored by the same call has the timestamp of
  the call.
\<close>

theorem handle_message_payload_counterexample:
  "fst (handle_message ''sid1''
     [(''room'', Some ''r1''), (''name'', Some ''alice''), (''message'', Some ''hello'')] ''t1'' WriteOk
     (snd (handle_join ''sid1'' [(''room'', Some ''r1''), (''name'', Some ''alice'')] ''t0''
        (create_socketio_app Absent)))) =
     [Emitted ''message''
        (MessageDict [(''room'', Some ''r1''), (''name'', Some ''alice''), (''message'', Some ''hello'')])
        {''sid1''}] \<and>
   map_of [(''room'', Some ''r1''), (''name'', Some ''alice''), (''message'', Some ''hello'')]
     ''timestamp'' = None \<and>
   load_room_messages ''r1'' (message_server (snd (handle_message ''sid1''
     [(''room'', Some ''r1''), (''name'', Some ''alice''), (''message'', Some ''hello'')] ''t1'' WriteOk
     (snd (handle_join ''sid1'' [(''room'', Some ''r1''), (''name'', Some ''alice'')] ''t0''
        (create_socketio_app Absent)))))) =
     [\<lparr>name = Some ''alice'', message = Some ''hello'', timestamp = ''t1'', id_field = 0\<rparr>]"
  by (simp add: handler_eval)

section \<open>The join event\<close>

text \<open>
  C7, as the code has it. On a join with a room and a name, the last event emitted is the
  join notice of \<^verbatim>\<open>System\<close>, sent to everyone in the room after \<^verbatim>\<open>join_room\<close>: the
  members before the join and the joining connection itself.
\<close>

theorem handle_join_notice_to_all_members:
  "dict_get data ''room'' = Some room \<Longrightarrow> room \<noteq> [] \<Longrightarrow>
   dict_get data ''name'' = Some nm \<Longrightarrow> nm \<noteq> [] \<Longrightarrow>
   last (fst (handle_join request_sid data now st)) =
     Emitted ''message''
       (MessageDict [(''name'', Some ''System''),
                     (''message'', Some (nm @ '' joined the room'')),
                     (''timestamp'', Some now)])
       (insert request_sid (rooms st room)) \<and>
   request_sid \<in> recipients (last (fst (handle_join request_sid data now st)))"
  by (simp add: handle_join_def send_def join_room_def Let_def)

text \<open>
  The theorem at the join of a second connection.
\<close>

theorem handle_join_notice_to_all_members_witness:
  "dict_get [(''room'', Some ''r1''), (''name'', Some ''bob'')] ''room'' = Some ''r1'' \<and>
   ''r1'' \<noteq> [] \<and>
   dict_get [(''room'', Some ''r1''), (''name'', Some ''bob'')] ''name'' = Some ''bob'' \<and>
   ''bob'' \<noteq> [] \<and>
   recipients (last (fst (handle_join ''sid2'' [(''room'', Some ''r1''), (''name'', Some ''bob'')] ''t1''
     (snd (handle_join ''sid1'' [(''room'', Some ''r1''), (''name'', Some ''alice'')] ''t0''
        (create_socketio_app Absent)))))) = {''sid1'', ''sid2''}"
  using handle_join_notice_to_all_members
    [of "[(''room'', Some ''r1''), (''name'', Some ''bob'')]" "''r1''" "''bob''" "''sid2''" "''t1''"
        "snd (handle_join ''sid1'' [(''room'', Some ''r1''), (''name'', Some ''alice'')] ''t0''
           (create_socketio_app Absent))"]
  by (auto simp: handler_eval)

text \<open>
  C7 as stated fails: the connection that joins is among the recipients of its own join
  notice.
\<close>

theorem handle_join_notice_excludes_joiner_counterexample:
  "''sid2'' \<in> recipients (last (fst
     (handle_join ''sid2'' [(''room'', Some ''r1''), (''name'', Some ''bob'')] ''t1''
        (snd (handle_join ''sid1'' [(''room'', Some ''r1''), (''name'', Some ''alice'')] ''t0''
           (create_socketio_app Absent))))))"
  by (simp add: handler_eval)

text \<open>
  C9, as the code has it. On a join with a room and a name, when the room has stored
  messages one \<^verbatim>\<open>chat_history\<close> event with all of them, in order, goes to the joining
  connection and to no one else; when the room has none, no \<^verbatim>\<open>chat_history\<close> event is
  emitted.
\<close>

theorem handle_join_chat_history:
  "dict_get data ''room'' = Some room \<Longrightarrow> room \<noteq> [] \<Longrightarrow>
   dict_get data ''name'' = Some nm \<Longrightarrow> nm \<noteq> [] \<Longrightarrow>
   filter (\<lambda>e. event e = ''chat_history'') (fst (handle_join request_sid data now st)) =
     (if load_room_messages room (message_server st) = [] then []
      else [Emitted ''chat_history''
              (ChatHistory (load_room_messages room (message_server st))) {request_sid}])"
  by (simp add: handle_join_def send_def emit_def Let_def load_room_messages_def)

text \<open>
  The theorem at a join of a room that has one message.
\<close>

theorem handle_join_chat_history_witness:
  "dict_get [(''room'', Some ''r1''), (''name'', Some ''bob'')] ''room'' = Some ''r1'' \<and>
   ''r1'' \<noteq> [] \<and>
   dict_get [(''room'', Some ''r1''), (''name'', Some ''bob'')] ''name'' = Some ''bob'' \<and>
   ''bob'' \<noteq> [] \<and>
   filter (\<lambda>e. event e = ''chat_history'')
     (fst (handle_join ''sid2'' [(''room'', Some ''r1''), (''name'', Some ''bob'')] ''t2''
        (snd (handle_message ''sid1''
           [(''room'', Some ''r1''), (''name'', Some ''alice''), (''message'', Some ''hello'')]
           ''t1'' WriteOk
           (snd (handle_join ''sid1'' [(''room'', Some ''r1''), (''name'', Some ''alice'')] ''t0''
              (create_socketio_app Absent))))))) =
     [Emitted ''chat_history''
        (ChatHistory [\<lparr>name = Some ''alice'', message = Some ''hello'', timestamp = ''t1'',
                       id_field = 0\<rparr>])
        {''sid2''}]"
  using handle_join_chat_history
    [of "[(''room'', Some ''r1''), (''name'', Some ''bob'')]" "''r1''" "''bob''" "''sid2''" "''t2''"
        "snd (handle_message ''sid1''
           [(''room'', Some ''r1''), (''name'', Some ''alice''), (''message'', Some ''hello'')]
           ''t1'' WriteOk
           (snd (handle_join ''sid1'' [(''room'', Some ''r1''), (''name'', Some ''alice'')] ''t0''
              (create_socketio_app Absent))))"]
  by (simp add: handler_eval)

text \<open>
  C9 as stated fails: a join of a room with no history emits the join notice and nothing
  else.
\<close>

theorem handle_join_empty_history_counterexample:
  "map event (fst (handle_join ''sid1'' [(''room'', Some ''r1''), (''name'', Some ''alice'')] ''t0''
     (create_socketio_app Absent))) = [''message'']"
  by (simp add: handler_eval)

end
